theory Spec2Isabelle
  imports Complex_Main
begin

section \<open>FNFTpy: the ctypes wrappers around the FNFT library\<close>

text \<open>
  The three source files \<^verbatim>\<open>fnft_nsep_wrapper.py\<close>, \<^verbatim>\<open>fnft_nsev_slow_wrapper.py\<close> and
  \<^verbatim>\<open>fnft_nsev_inverse_wrapper.py\<close> marshal Python arguments into C buffers, call one
  function of the shared library FNFT, and pack what the library wrote into a dictionary.
  The embedding follows that shape:
  \<^item> Python exceptions are values of \<open>py_error\<close>; a computation returns \<open>py_error + 'a\<close>;
  \<^item> numpy arrays live in a heap (a list of arrays, an address is an index), so that
    fresh buffers and the caller's arrays can be told apart;
  \<^item> the library is a record of functions from the argument values to the return code
    and the new contents of the memory behind the arguments: a foreign function reads and
    writes only through the pointers it is given, and it is a function of what it reads;
  \<^item> every foreign call is appended to a log, so that what a wrapper hands to the
    library, and whether it calls it at all, can be stated.
  Samples are \<open>complex\<close> and times and frequencies \<open>real\<close>: the wrappers only move them.
  Memory exhaustion in \<^verbatim>\<open>np.zeros\<close> is not modelled.
\<close>

subsection \<open>Exceptions and values\<close>

datatype py_error = ValueError string | TypeError string | OSError string

text \<open>
  The values stored in a result dictionary: a Python int, a numpy array (given by its
  contents), a Python list (what slicing a ctypes pointer gives), and the string
  \<^verbatim>\<open>repr(options)\<close>, kept as the options it is computed from.
\<close>

datatype 'o pyval = PInt int | PArr "complex list" | PList "int list" | PRepr 'o

type_synonym 'o rdict = "string \<rightharpoonup> 'o pyval"



subsection \<open>ctypes integers\<close>

text \<open>
  \<^verbatim>\<open>ctypes_uint\<close> and \<^verbatim>\<open>ctypes_int\<close> come from \<^verbatim>\<open>typesdef.py\<close>, which is not among the
  sources; their widths are parameters. ctypes does no overflow checking: the value is
  reduced modulo \<open>2 ^ bits\<close>. Both functions give the \<^verbatim>\<open>.value\<close> of the ctypes object.
\<close>

definition ctypes_uint :: "nat \<Rightarrow> int \<Rightarrow> int" where
  "ctypes_uint bits x = x mod 2 ^ bits"

definition ctypes_int :: "nat \<Rightarrow> int \<Rightarrow> int" where
  "ctypes_int bits x = (x + 2 ^ (bits - 1)) mod 2 ^ bits - 2 ^ (bits - 1)"

subsection \<open>Slicing\<close>

text \<open>Python's \<^verbatim>\<open>xs[i:j]\<close> on a sequence of length \<open>n\<close>: a negative bound counts from
  the end, and both bounds are clipped to \<open>0..n\<close>.\<close>

definition slice_bound :: "int \<Rightarrow> int \<Rightarrow> int" where
  "slice_bound n i = (if i < 0 then max 0 (n + i) else min n i)"

definition py_slice :: "'a list \<Rightarrow> int \<Rightarrow> int \<Rightarrow> 'a list" where
  "py_slice xs i j =
     (let n = int (length xs); a = slice_bound n i; b = slice_bound n j
      in take (nat (b - a)) (drop (nat a) xs))"

text \<open>What a foreign function leaves in a buffer of fixed length: it cannot resize it.\<close>

definition overwrite :: "'a list \<Rightarrow> 'a list \<Rightarrow> 'a list" where
  "overwrite old new = take (length old) new @ drop (length new) old"

subsection \<open>The library and the record of its calls\<close>

text \<open>
  The option structs \<^verbatim>\<open>NsepOptionsStruct\<close> and \<^verbatim>\<open>NsevInverseOptionsStruct\<close> are declared in
  \<^verbatim>\<open>typesdef.py\<close>, not among the sources, and the wrappers read no field of them: they
  are type parameters \<open>'po\<close> and \<open>'io\<close>. Of \<^verbatim>\<open>NsevSlowOptionsStruct\<close> the wrapper reads
  \<open>discspec_type\<close> and \<open>contspec_type\<close>; the other fields are carried along.
\<close>

record nsev_slow_options =
  discspec_type :: int
  contspec_type :: int
  other_fields :: "int list"

text \<open>
  One record per foreign function, a field per C argument in the order of \<^verbatim>\<open>argtypes\<close>.
  A buffer is given by its contents, a pointer that may be \<^verbatim>\<open>NULL\<close> by an option, a
  \<^verbatim>\<open>ctypes_uint\<close> passed by pointer by its value. The argument \<^verbatim>\<open>sheet_indices\<close> of
  \<^verbatim>\<open>fnft_nsep\<close> is always \<^verbatim>\<open>NULL\<close> and has no field.
\<close>

record 'po nsep_args =
  nsep_D :: int
  nsep_q :: "complex list"
  nsep_T :: "real \<times> real"
  nsep_K :: int
  nsep_main_spec :: "complex list"
  nsep_M :: int
  nsep_aux_spec :: "complex list"
  nsep_kappa :: int
  nsep_options :: 'po

record nsev_slow_args =
  sl_D :: int
  sl_q :: "complex list"
  sl_T :: "real \<times> real"
  sl_M :: int
  sl_cont :: "complex list option"
  sl_Xi :: "real \<times> real"
  sl_K :: int
  sl_boundstates :: "complex list option"
  sl_discspec :: "complex list option"
  sl_kappa :: int
  sl_options :: nsev_slow_options

record 'io nsev_inverse_args =
  inv_M :: int
  inv_contspec :: "complex list"
  inv_Xi :: "real \<times> real"
  inv_K :: int
  inv_boundstates :: "complex list option"
  inv_discspec :: "complex list option"
  inv_D :: int
  inv_q :: "complex list"
  inv_T :: "real \<times> real"
  inv_kappa :: int
  inv_options :: 'io

record xi_args =
  xi_D :: int
  xi_T :: "real \<times> real"
  xi_M :: int
  xi_Xi :: "real \<times> real"
  xi_dis :: int

text \<open>
  A foreign function maps its arguments to the C return value and to the arguments as
  they stand when it returns. What is passed by pointer can be written by the library and
  is read back by the wrappers: \<open>K\<close>, \<open>M\<close>, the buffers, and the options struct, which is
  passed with \<^verbatim>\<open>ctypes.byref(options)\<close> and read again after the call. The scalars are
  passed by value, so those fields of the result are ignored.
\<close>

record ('io, 'po) clib =
  fnft_nsep :: "'po nsep_args \<Rightarrow> int \<times> 'po nsep_args"
  fnft_nsev_slow :: "nsev_slow_args \<Rightarrow> int \<times> nsev_slow_args"
  fnft_nsev_inverse :: "'io nsev_inverse_args \<Rightarrow> int \<times> 'io nsev_inverse_args"
  fnft_nsev_inverse_XI :: "xi_args \<Rightarrow> int \<times> xi_args"

datatype ('io, 'po) fnft_call =
    Call_nsep "'po nsep_args"
  | Call_nsev_slow nsev_slow_args
  | Call_nsev_inverse "'io nsev_inverse_args"
  | Call_nsev_inverse_XI xi_args

text \<open>
  What the wrappers import from the modules that are not among the sources:
  the widths of \<^verbatim>\<open>ctypes_uint\<close> and \<^verbatim>\<open>ctypes_int\<close> (\<^verbatim>\<open>typesdef\<close>), the outcome of
  \<^verbatim>\<open>ctypes.CDLL(get_lib_path())\<close> (\<open>None\<close> when loading raises), \<^verbatim>\<open>check_return_code\<close>
  (\<^verbatim>\<open>auxiliary\<close>; \<open>Some e\<close> when it raises \<open>e\<close>), and the option builders
  (\<^verbatim>\<open>options_handling\<close>) with their keyword arguments in the order of the call.
\<close>

record ('io, 'po) env =
  uint_bits :: nat
  int_bits :: nat
  CDLL_get_lib_path :: "('io, 'po) clib option"
  check_return_code :: "int \<Rightarrow> py_error option"
  get_nsev_slow_options ::
    "int option \<Rightarrow> int option \<Rightarrow> int option \<Rightarrow> int option \<Rightarrow> int option \<Rightarrow> int option
       \<Rightarrow> int option \<Rightarrow> py_error + nsev_slow_options"
  get_nsev_inverse_options ::
    "int \<Rightarrow> int option \<Rightarrow> int option \<Rightarrow> int option \<Rightarrow> int option \<Rightarrow> int option
       \<Rightarrow> py_error + 'io"

subsection \<open>The interpreter state and its monad\<close>

type_synonym addr = nat

record ('io, 'po) pystate =
  heap :: "complex list list"
  calls :: "('io, 'po) fnft_call list"

type_synonym ('a, 'io, 'po) py =
  "('io, 'po) pystate \<Rightarrow> (py_error + 'a) \<times> ('io, 'po) pystate"

definition py_return :: "'a \<Rightarrow> ('a, 'io, 'po) py" where
  "py_return x = (\<lambda>s. (Inr x, s))"

definition py_raise :: "py_error \<Rightarrow> ('a, 'io, 'po) py" where
  "py_raise e = (\<lambda>s. (Inl e, s))"

definition py_bind :: "('a, 'io, 'po) py \<Rightarrow> ('a \<Rightarrow> ('b, 'io, 'po) py) \<Rightarrow> ('b, 'io, 'po) py" where
  "py_bind m f = (\<lambda>s. case m s of (Inl e, s') \<Rightarrow> (Inl e, s') | (Inr x, s') \<Rightarrow> f x s')"

definition py_lift :: "py_error + 'a \<Rightarrow> ('a, 'io, 'po) py" where
  "py_lift r = (\<lambda>s. (r, s))"

text \<open>The calls a run has added to the log.\<close>

definition new_calls :: "('io, 'po) pystate \<Rightarrow> ('io, 'po) pystate \<Rightarrow> ('io, 'po) fnft_call list" where
  "new_calls s s' = drop (length (calls s)) (calls s')"

subsection \<open>numpy\<close>

text \<open>\<^verbatim>\<open>np.zeros(n, dtype=numpy_complex)\<close>: a fresh array at a fresh address.\<close>

definition np_zeros :: "int \<Rightarrow> (addr, 'io, 'po) py" where
  "np_zeros n = (\<lambda>s.
     if n < 0 then (Inl (ValueError ''negative dimensions are not allowed''), s)
     else (Inr (length (heap s)), s\<lparr>heap := heap s @ [replicate (nat n) 0]\<rparr>))"

text \<open>\<^verbatim>\<open>x[:]\<close> read as a value: an address that holds no array stands for an object that
  cannot be subscripted.\<close>

definition np_get :: "addr \<Rightarrow> (complex list, 'io, 'po) py" where
  "np_get a = (\<lambda>s.
     if a < length (heap s) then (Inr (heap s ! a), s)
     else (Inl (TypeError ''object is not subscriptable''), s))"

text \<open>The same for an argument \<open>x\<close> of the caller, read after the wrapper has allocated
  buffers of its own. The arrays of the caller are those below \<open>first\<close>, the address of the
  first buffer of the wrapper.\<close>

definition np_get_arg :: "addr \<Rightarrow> addr \<Rightarrow> (complex list, 'io, 'po) py" where
  "np_get_arg first a = (\<lambda>s.
     if a < first \<and> a < length (heap s) then (Inr (heap s ! a), s)
     else (Inl (TypeError ''object is not subscriptable''), s))"

definition py_len :: "addr \<Rightarrow> (int, 'io, 'po) py" where
  "py_len a = (\<lambda>s.
     if a < length (heap s) then (Inr (int (length (heap s ! a))), s)
     else (Inl (TypeError ''object has no len()''), s))"

text \<open>\<^verbatim>\<open>a[:] = v\<close> for one-dimensional arrays: \<open>v\<close> must have the length of \<open>a\<close>, or
  length one, in which case numpy broadcasts its element.\<close>

definition np_broadcast :: "nat \<Rightarrow> complex list \<Rightarrow> complex list option" where
  "np_broadcast n v =
     (if length v = n then Some v
      else if length v = 1 then Some (replicate n (hd v))
      else None)"

definition np_assign_all :: "addr \<Rightarrow> complex list \<Rightarrow> (unit, 'io, 'po) py" where
  "np_assign_all a v = (\<lambda>s.
     case np_broadcast (length (heap s ! a)) v of
       Some w \<Rightarrow> (Inr (), s\<lparr>heap := (heap s)[a := w]\<rparr>)
     | None \<Rightarrow> (Inl (ValueError ''could not broadcast input array''), s))"

text \<open>\<^verbatim>\<open>p[i:j]\<close> where \<open>p\<close> is a numpy array or the ctypes null pointer. Slicing a ctypes
  pointer reads \<open>j - i\<close> items through it; reading through \<^verbatim>\<open>NULL\<close> raises, and a slice
  of no items is the empty list.\<close>

definition ptr_slice :: "complex list list \<Rightarrow> addr option \<Rightarrow> int \<Rightarrow> int \<Rightarrow> py_error + 'o pyval" where
  "ptr_slice h p i j =
     (case p of
        Some a \<Rightarrow> Inr (PArr (py_slice (h ! a) i j))
      | None \<Rightarrow> if j - i \<le> 0 then Inr (PList [])
                else Inl (ValueError ''NULL pointer access''))"

definition buf_slice :: "addr option \<Rightarrow> int \<Rightarrow> int \<Rightarrow> ('o pyval, 'io, 'po) py" where
  "buf_slice p i j = (\<lambda>s. (ptr_slice (heap s) p i j, s))"

text \<open>\<^verbatim>\<open>np.min\<close> and \<^verbatim>\<open>np.max\<close> raise on an empty array.\<close>

definition np_min :: "real list \<Rightarrow> py_error + real" where
  "np_min xs = (if xs = [] then Inl (ValueError ''zero-size array to reduction operation'')
                else Inr (Min (set xs)))"

definition np_max :: "real list \<Rightarrow> py_error + real" where
  "np_max xs = (if xs = [] then Inl (ValueError ''zero-size array to reduction operation'')
                else Inr (Max (set xs)))"

text \<open>\<^verbatim>\<open>ctypes.CDLL(get_lib_path())\<close>.\<close>

definition load_clib :: "('io, 'po) env \<Rightarrow> (('io, 'po) clib, 'io, 'po) py" where
  "load_clib env = (\<lambda>s.
     case CDLL_get_lib_path env of
       None \<Rightarrow> (Inl (OSError ''cannot open shared object file''), s)
     | Some lib \<Rightarrow> (Inr lib, s))"

text \<open>\<^verbatim>\<open>check_return_code(rv)\<close>.\<close>

definition run_check_return_code :: "('io, 'po) env \<Rightarrow> int \<Rightarrow> (unit, 'io, 'po) py" where
  "run_check_return_code env rv = (\<lambda>s.
     case check_return_code env rv of
       None \<Rightarrow> (Inr (), s)
     | Some e \<Rightarrow> (Inl e, s))"

subsection \<open>Calling the library\<close>

text \<open>A foreign function that was handed the buffer at address \<open>a\<close> leaves \<open>new\<close> in it.\<close>

definition poke :: "addr \<Rightarrow> complex list \<Rightarrow> complex list list \<Rightarrow> complex list list" where
  "poke a new h = h[a := overwrite (h ! a) new]"

text \<open>The same for a pointer that may be \<^verbatim>\<open>NULL\<close>: nothing is written through a null
  pointer, and a buffer for which the function reports no contents keeps its own.\<close>

definition left_in :: "complex list \<Rightarrow> complex list option \<Rightarrow> complex list" where
  "left_in old new = (case new of None \<Rightarrow> old | Some v \<Rightarrow> overwrite old v)"

definition poke_opt ::
  "addr option \<Rightarrow> complex list option \<Rightarrow> complex list list \<Rightarrow> complex list list" where
  "poke_opt p new h = (case p of None \<Rightarrow> h | Some a \<Rightarrow> h[a := left_in (h ! a) new])"

text \<open>
  Each call reads the buffers behind the pointers, logs the arguments, applies the
  library function, writes the buffers back, and returns what Python can read afterwards:
  the return value converted by \<^verbatim>\<open>restype = ctypes_int\<close>, the \<^verbatim>\<open>.value\<close> of the
  \<^verbatim>\<open>ctypes_uint\<close> objects that were passed by pointer, and the options struct as the
  library left it.
\<close>

definition call_fnft_nsep ::
  "('io, 'po) env \<Rightarrow> ('io, 'po) clib \<Rightarrow> int \<Rightarrow> addr \<Rightarrow> real \<times> real \<Rightarrow> int \<Rightarrow> addr \<Rightarrow> int \<Rightarrow> addr
     \<Rightarrow> int \<Rightarrow> 'po \<Rightarrow> (int \<times> int \<times> int \<times> 'po, 'io, 'po) py" where
  "call_fnft_nsep env lib D q T K main_spec M aux_spec kappa options = (\<lambda>s.
     let h = heap s;
         args = \<lparr>nsep_D = D, nsep_q = h ! q, nsep_T = T, nsep_K = K,
                 nsep_main_spec = h ! main_spec, nsep_M = M, nsep_aux_spec = h ! aux_spec,
                 nsep_kappa = kappa, nsep_options = options\<rparr>;
         res = fnft_nsep lib args;
         out = snd res;
         h' = poke aux_spec (nsep_aux_spec out)
                (poke main_spec (nsep_main_spec out) (poke q (nsep_q out) h))
     in (Inr (ctypes_int (int_bits env) (fst res),
              ctypes_uint (uint_bits env) (nsep_K out),
              ctypes_uint (uint_bits env) (nsep_M out),
              nsep_options out),
         s\<lparr>heap := h', calls := calls s @ [Call_nsep args]\<rparr>))"

definition call_fnft_nsev_slow ::
  "('io, 'po) env \<Rightarrow> ('io, 'po) clib \<Rightarrow> int \<Rightarrow> addr \<Rightarrow> real \<times> real \<Rightarrow> int \<Rightarrow> addr option
     \<Rightarrow> real \<times> real \<Rightarrow> int \<Rightarrow> addr option \<Rightarrow> addr option \<Rightarrow> int \<Rightarrow> nsev_slow_options
     \<Rightarrow> (int \<times> int \<times> nsev_slow_options, 'io, 'po) py" where
  "call_fnft_nsev_slow env lib D q T M cont Xi K boundstates discspec kappa options = (\<lambda>s.
     let h = heap s;
         args = \<lparr>sl_D = D, sl_q = h ! q, sl_T = T, sl_M = M,
                 sl_cont = map_option (\<lambda>a. h ! a) cont, sl_Xi = Xi, sl_K = K,
                 sl_boundstates = map_option (\<lambda>a. h ! a) boundstates,
                 sl_discspec = map_option (\<lambda>a. h ! a) discspec,
                 sl_kappa = kappa, sl_options = options\<rparr>;
         res = fnft_nsev_slow lib args;
         out = snd res;
         h' = poke_opt discspec (sl_discspec out)
                (poke_opt boundstates (sl_boundstates out)
                  (poke_opt cont (sl_cont out) (poke q (sl_q out) h)))
     in (Inr (ctypes_int (int_bits env) (fst res), ctypes_uint (uint_bits env) (sl_K out),
              sl_options out),
         s\<lparr>heap := h', calls := calls s @ [Call_nsev_slow args]\<rparr>))"

definition call_fnft_nsev_inverse ::
  "('io, 'po) env \<Rightarrow> ('io, 'po) clib \<Rightarrow> int \<Rightarrow> addr \<Rightarrow> real \<times> real \<Rightarrow> int \<Rightarrow> addr option
     \<Rightarrow> addr option \<Rightarrow> int \<Rightarrow> addr \<Rightarrow> real \<times> real \<Rightarrow> int \<Rightarrow> 'io \<Rightarrow> (int \<times> 'io, 'io, 'po) py" where
  "call_fnft_nsev_inverse env lib M contspec Xi K boundstates discspec D q T kappa options = (\<lambda>s.
     let h = heap s;
         args = \<lparr>inv_M = M, inv_contspec = h ! contspec, inv_Xi = Xi, inv_K = K,
                 inv_boundstates = map_option (\<lambda>a. h ! a) boundstates,
                 inv_discspec = map_option (\<lambda>a. h ! a) discspec,
                 inv_D = D, inv_q = h ! q, inv_T = T, inv_kappa = kappa,
                 inv_options = options\<rparr>;
         res = fnft_nsev_inverse lib args;
         out = snd res;
         h' = poke q (inv_q out)
                (poke_opt discspec (inv_discspec out)
                  (poke_opt boundstates (inv_boundstates out)
                    (poke contspec (inv_contspec out) h)))
     in (Inr (ctypes_int (int_bits env) (fst res), inv_options out),
         s\<lparr>heap := h', calls := calls s @ [Call_nsev_inverse args]\<rparr>))"

text \<open>The last argument of \<^verbatim>\<open>fnft_nsev_inverse_XI\<close> is the Python int \<open>dis\<close>, converted by
  its \<^verbatim>\<open>argtypes\<close> entry \<^verbatim>\<open>ctypes_int32\<close>. The two-element array \<^verbatim>\<open>nsev_Xi\<close> is passed
  and read back as a pair.\<close>

definition call_fnft_nsev_inverse_XI ::
  "('io, 'po) env \<Rightarrow> ('io, 'po) clib \<Rightarrow> int \<Rightarrow> real \<times> real \<Rightarrow> int \<Rightarrow> real \<times> real \<Rightarrow> int
     \<Rightarrow> (int \<times> real \<times> real, 'io, 'po) py" where
  "call_fnft_nsev_inverse_XI env lib D T M Xi dis = (\<lambda>s.
     let args = \<lparr>xi_D = D, xi_T = T, xi_M = M, xi_Xi = Xi, xi_dis = ctypes_int 32 dis\<rparr>;
         res = fnft_nsev_inverse_XI lib args
     in (Inr (ctypes_int (int_bits env) (fst res), xi_Xi (snd res)),
         s\<lparr>calls := calls s @ [Call_nsev_inverse_XI args]\<rparr>))"

subsection \<open>\<^verbatim>\<open>fnft_nsep_wrapper.py\<close>\<close>

text \<open>\<^verbatim>\<open>nsep_wrapper(D, q, T1, T2, kappa, options)\<close>, lines 146 to 196. The argument \<open>q\<close>
  is the address of the caller's array. The name \<open>options\<close> is bound again to the struct as
  it stands after the call, which is what \<^verbatim>\<open>repr(options)\<close> reads.\<close>

definition nsep_wrapper ::
  "('io, 'po) env \<Rightarrow> int \<Rightarrow> addr \<Rightarrow> real \<Rightarrow> real \<Rightarrow> int \<Rightarrow> 'po \<Rightarrow> ('po rdict, 'io, 'po) py" where
  "nsep_wrapper env D q T1 T2 kappa options =
     py_bind (load_clib env) (\<lambda>fnft_clib.
     let nsep_D = ctypes_uint (uint_bits env) D in
     py_bind (np_zeros nsep_D) (\<lambda>nsep_q.
     py_bind (np_get_arg nsep_q q) (\<lambda>qv.
     py_bind (np_assign_all nsep_q (map (\<lambda>z. z + 0) qv)) (\<lambda>_.
     let nsep_T = (T1, T2);
         nsep_K = ctypes_uint (uint_bits env) (4 * nsep_D) in
     py_bind (np_zeros nsep_K) (\<lambda>nsep_main_spec.
     let nsep_M = ctypes_uint (uint_bits env) (2 * nsep_D) in
     py_bind (np_zeros nsep_M) (\<lambda>nsep_aux_spec.
     let nsep_kappa = ctypes_int (int_bits env) kappa in
     py_bind (call_fnft_nsep env fnft_clib nsep_D nsep_q nsep_T nsep_K nsep_main_spec
                nsep_M nsep_aux_spec nsep_kappa options) (\<lambda>(rv, K_value, M_value, options).
     py_bind (buf_slice (Some nsep_main_spec) 0 K_value) (\<lambda>main.
     py_bind (buf_slice (Some nsep_aux_spec) 0 M_value) (\<lambda>aux.
     py_return [''return_value'' \<mapsto> PInt rv,
                ''K'' \<mapsto> PInt K_value,
                ''main'' \<mapsto> main,
                ''M'' \<mapsto> PInt M_value,
                ''aux'' \<mapsto> aux,
                ''options'' \<mapsto> PRepr options])))))))))"

subsection \<open>\<^verbatim>\<open>fnft_nsev_slow_wrapper.py\<close>\<close>

text \<open>Lines 192 to 207: the buffers of the discrete spectrum, or null pointers. The
  result is the pair \<^verbatim>\<open>(nsev_slow_discspec, nsev_slow_boundstates)\<close>.\<close>

definition nsev_slow_alloc_disc :: "int \<Rightarrow> int \<Rightarrow> (addr option \<times> addr option, 'io, 'po) py" where
  "nsev_slow_alloc_disc dst K =
     (if dst = 0 \<or> dst = 1 then
        py_bind (np_zeros K) (\<lambda>nsev_slow_discspec.
        py_bind (np_zeros K) (\<lambda>nsev_slow_boundstates.
        py_return (Some nsev_slow_discspec, Some nsev_slow_boundstates)))
      else if dst = 2 then
        py_bind (np_zeros (2 * K)) (\<lambda>nsev_slow_discspec.
        py_bind (np_zeros K) (\<lambda>nsev_slow_boundstates.
        py_return (Some nsev_slow_discspec, Some nsev_slow_boundstates)))
      else py_return (None, None))"

text \<open>Lines 211 to 225: the buffer of the continuous spectrum, or a null pointer.\<close>

definition nsev_slow_alloc_cont :: "int \<Rightarrow> int \<Rightarrow> (addr option, 'io, 'po) py" where
  "nsev_slow_alloc_cont cst M =
     (if cst = 0 then py_bind (np_zeros M) (\<lambda>nsev_slow_cont. py_return (Some nsev_slow_cont))
      else if cst = 1 then
        py_bind (np_zeros (2 * M)) (\<lambda>nsev_slow_cont. py_return (Some nsev_slow_cont))
      else if cst = 2 then
        py_bind (np_zeros (3 * M)) (\<lambda>nsev_slow_cont. py_return (Some nsev_slow_cont))
      else py_return None)"

text \<open>Lines 261 to 273: the discrete spectrum in the result.\<close>

definition nsev_slow_output_disc ::
  "int \<Rightarrow> addr option \<Rightarrow> int \<Rightarrow> 'o rdict \<Rightarrow> ('o rdict, 'io, 'po) py" where
  "nsev_slow_output_disc dst nsev_slow_discspec K_new rdict =
     (if dst = 0 then
        py_bind (buf_slice nsev_slow_discspec 0 K_new) (\<lambda>v.
        py_return (rdict(''disc_norm'' \<mapsto> v)))
      else if dst = 1 then
        py_bind (buf_slice nsev_slow_discspec 0 K_new) (\<lambda>v.
        py_return (rdict(''disc_res'' \<mapsto> v)))
      else if dst = 2 then
        py_bind (buf_slice nsev_slow_discspec 0 K_new) (\<lambda>v.
        py_bind (buf_slice nsev_slow_discspec K_new (2 * K_new)) (\<lambda>w.
        py_return (rdict(''disc_norm'' \<mapsto> v, ''disc_res'' \<mapsto> w))))
      else py_return rdict)"

text \<open>Lines 277 to 291: the continuous spectrum in the result.\<close>

definition nsev_slow_output_cont ::
  "int \<Rightarrow> addr option \<Rightarrow> int \<Rightarrow> 'o rdict \<Rightarrow> ('o rdict, 'io, 'po) py" where
  "nsev_slow_output_cont cst nsev_slow_cont M rdict =
     (if cst = 0 then
        py_bind (buf_slice nsev_slow_cont 0 M) (\<lambda>v.
        py_return (rdict(''cont_ref'' \<mapsto> v)))
      else if cst = 1 then
        py_bind (buf_slice nsev_slow_cont 0 M) (\<lambda>v.
        py_bind (buf_slice nsev_slow_cont M (2 * M)) (\<lambda>w.
        py_return (rdict(''cont_a'' \<mapsto> v, ''cont_b'' \<mapsto> w))))
      else if cst = 2 then
        py_bind (buf_slice nsev_slow_cont 0 M) (\<lambda>u.
        py_bind (buf_slice nsev_slow_cont M (2 * M)) (\<lambda>v.
        py_bind (buf_slice nsev_slow_cont (2 * M) (3 * M)) (\<lambda>w.
        py_return (rdict(''cont_ref'' \<mapsto> u, ''cont_a'' \<mapsto> v, ''cont_b'' \<mapsto> w)))))
      else py_return rdict)"

text \<open>\<^verbatim>\<open>nsev_slow_wrapper(D, q, T1, T2, Xi1, Xi2, M, K, kappa, options)\<close>, lines 174 to 293.
  The buffers are chosen by the options as they are given (lines 194 to 225); after the
  call the name \<open>options\<close> is bound again to the struct as the library left it, which is what
  lines 261, 277 and 292 read.\<close>

definition nsev_slow_wrapper ::
  "('io, 'po) env \<Rightarrow> int \<Rightarrow> addr \<Rightarrow> real \<Rightarrow> real \<Rightarrow> real \<Rightarrow> real \<Rightarrow> int \<Rightarrow> int \<Rightarrow> int
     \<Rightarrow> nsev_slow_options \<Rightarrow> (nsev_slow_options rdict, 'io, 'po) py" where
  "nsev_slow_wrapper env D q T1 T2 Xi1 Xi2 M K kappa options =
     py_bind (load_clib env) (\<lambda>fnft_clib.
     let nsev_slow_D = ctypes_uint (uint_bits env) D;
         nsev_slow_M = ctypes_uint (uint_bits env) M;
         nsev_slow_K = ctypes_uint (uint_bits env) K;
         nsev_slow_T = (T1, T2) in
     py_bind (np_zeros nsev_slow_D) (\<lambda>nsev_slow_q.
     py_bind (np_get_arg nsev_slow_q q) (\<lambda>qv.
     py_bind (np_assign_all nsev_slow_q (map (\<lambda>z. z + 0) qv)) (\<lambda>_.
     let nsev_slow_kappa = ctypes_int (int_bits env) kappa;
         nsev_slow_Xi = (Xi1, Xi2) in
     py_bind (nsev_slow_alloc_disc (discspec_type options) K)
       (\<lambda>(nsev_slow_discspec, nsev_slow_boundstates).
     py_bind (nsev_slow_alloc_cont (contspec_type options) M) (\<lambda>nsev_slow_cont.
     py_bind (call_fnft_nsev_slow env fnft_clib nsev_slow_D nsev_slow_q nsev_slow_T
                nsev_slow_M nsev_slow_cont nsev_slow_Xi nsev_slow_K nsev_slow_boundstates
                nsev_slow_discspec nsev_slow_kappa options) (\<lambda>(rv, K_new, options).
     py_bind (run_check_return_code env rv) (\<lambda>_.
     py_bind (buf_slice nsev_slow_boundstates 0 K_new) (\<lambda>bound_states.
     let rdict = [''return_value'' \<mapsto> PInt rv,
                  ''bound_states_num'' \<mapsto> PInt K_new,
                  ''bound_states'' \<mapsto> bound_states] in
     py_bind (nsev_slow_output_disc (discspec_type options) nsev_slow_discspec K_new rdict)
       (\<lambda>rdict.
     py_bind (nsev_slow_output_cont (contspec_type options) nsev_slow_cont M rdict)
       (\<lambda>rdict.
     py_return (rdict(''options'' \<mapsto> PRepr options)))))))))))))"

text \<open>\<^verbatim>\<open>nsev_slow(q, tvec, Xi1, Xi2, M, K, kappa, bsf, bsl, niter, dst, cst, dis, ref)\<close>,
  lines 130 to 135. The time vector is only read, and is given by its contents.\<close>

definition nsev_slow ::
  "('io, 'po) env \<Rightarrow> addr \<Rightarrow> real list \<Rightarrow> real \<Rightarrow> real \<Rightarrow> int \<Rightarrow> int \<Rightarrow> int \<Rightarrow> int option
     \<Rightarrow> int option \<Rightarrow> int option \<Rightarrow> int option \<Rightarrow> int option \<Rightarrow> int option \<Rightarrow> int option
     \<Rightarrow> (nsev_slow_options rdict, 'io, 'po) py" where
  "nsev_slow env q tvec Xi1 Xi2 M K kappa bsf bsl niter dst cst dis ref =
     py_bind (py_len q) (\<lambda>D.
     py_bind (py_lift (np_min tvec)) (\<lambda>T1.
     py_bind (py_lift (np_max tvec)) (\<lambda>T2.
     py_bind (py_lift (get_nsev_slow_options env bsf bsl niter dst cst dis ref)) (\<lambda>options.
     nsev_slow_wrapper env D q T1 T2 Xi1 Xi2 M K kappa options))))"

subsection \<open>\<^verbatim>\<open>fnft_nsev_inverse_wrapper.py\<close>\<close>

text \<open>\<^verbatim>\<open>x[:]\<close> for an argument of the caller that may be \<^verbatim>\<open>None\<close>.\<close>

definition np_get_opt :: "addr \<Rightarrow> addr option \<Rightarrow> (complex list, 'io, 'po) py" where
  "np_get_opt first p =
     (case p of None \<Rightarrow> py_raise (TypeError ''NoneType object is not subscriptable'')
      | Some a \<Rightarrow> np_get_arg first a)"

text \<open>Lines 169 to 182: copies of the bound states and of their coefficients, or null
  pointers. The result is the pair \<^verbatim>\<open>(nsev_boundstates, nsev_discspec)\<close>; \<open>first\<close> is the
  address of the first buffer of the wrapper.\<close>

definition nsev_inverse_alloc_disc ::
  "addr \<Rightarrow> int \<Rightarrow> addr option \<Rightarrow> addr option \<Rightarrow> (addr option \<times> addr option, 'io, 'po) py" where
  "nsev_inverse_alloc_disc first K bound_states normconst_or_residues =
     (if K > 0 then
        py_bind (np_zeros K) (\<lambda>nsev_boundstates.
        py_bind (np_get_opt first bound_states) (\<lambda>bv.
        py_bind (np_assign_all nsev_boundstates bv) (\<lambda>_.
        py_bind (np_zeros K) (\<lambda>nsev_discspec.
        py_bind (np_get_opt first normconst_or_residues) (\<lambda>dv.
        py_bind (np_assign_all nsev_discspec dv) (\<lambda>_.
        py_return (Some nsev_boundstates, Some nsev_discspec)))))))
      else py_return (None, None))"

text \<open>\<^verbatim>\<open>nsev_inverse_wrapper(M, contspec, Xi1, Xi2, K, bound_states, normconst_or_residues,
  D, T1, T2, kappa, options)\<close>, lines 158 to 226. After the call the name \<open>options\<close> is
  bound again to the struct as the library left it, which is what \<^verbatim>\<open>repr(options)\<close> reads.\<close>

definition nsev_inverse_wrapper ::
  "('io, 'po) env \<Rightarrow> int \<Rightarrow> addr \<Rightarrow> real \<Rightarrow> real \<Rightarrow> int \<Rightarrow> addr option \<Rightarrow> addr option \<Rightarrow> int
     \<Rightarrow> real \<Rightarrow> real \<Rightarrow> int \<Rightarrow> 'io \<Rightarrow> ('io rdict, 'io, 'po) py" where
  "nsev_inverse_wrapper env M contspec Xi1 Xi2 K bound_states normconst_or_residues
       D T1 T2 kappa options =
     py_bind (load_clib env) (\<lambda>fnft_clib.
     let nsev_M = ctypes_uint (uint_bits env) M in
     py_bind (np_zeros M) (\<lambda>nsev_contspec.
     py_bind (np_get_arg nsev_contspec contspec) (\<lambda>cv.
     py_bind (np_assign_all nsev_contspec cv) (\<lambda>_.
     let nsev_Xi = (Xi1, Xi2);
         nsev_K = ctypes_uint (uint_bits env) K in
     py_bind (nsev_inverse_alloc_disc nsev_contspec K bound_states normconst_or_residues)
       (\<lambda>(nsev_boundstates, nsev_discspec).
     let nsev_D = ctypes_uint (uint_bits env) D;
         nsev_T = (T1, T2);
         nsev_kappa = ctypes_int (int_bits env) kappa in
     py_bind (np_zeros nsev_D) (\<lambda>nsev_q.
     py_bind (call_fnft_nsev_inverse env fnft_clib nsev_M nsev_contspec nsev_Xi nsev_K
                nsev_boundstates nsev_discspec nsev_D nsev_q nsev_T nsev_kappa options)
       (\<lambda>(rv, options).
     py_bind (run_check_return_code env rv) (\<lambda>_.
     py_bind (np_get nsev_q) (\<lambda>qv.
     py_return [''return_value'' \<mapsto> PInt rv,
                ''q'' \<mapsto> PArr qv,
                ''options'' \<mapsto> PRepr options])))))))))"

text \<open>\<^verbatim>\<open>nsev_inverse_xi_wrapper(D, T1, T2, M, dis)\<close>, lines 253 to 270.\<close>

definition nsev_inverse_xi_wrapper ::
  "('io, 'po) env \<Rightarrow> int \<Rightarrow> real \<Rightarrow> real \<Rightarrow> int \<Rightarrow> int \<Rightarrow> (int \<times> real \<times> real, 'io, 'po) py" where
  "nsev_inverse_xi_wrapper env D T1 T2 M dis =
     py_bind (load_clib env) (\<lambda>fnft_clib.
     let nsev_D = ctypes_uint (uint_bits env) D;
         nsev_T = (T1, T2);
         nsev_M = ctypes_uint (uint_bits env) M;
         nsev_Xi = (0, 0) in
     py_bind (call_fnft_nsev_inverse_XI env fnft_clib nsev_D nsev_T nsev_M nsev_Xi dis)
       (\<lambda>(rv, nsev_Xi).
     py_return (rv, nsev_Xi)))"

text \<open>\<^verbatim>\<open>nsev_inverse(contspec, tvec, kappa, dis, cst, csim, dst, max_iter, osf)\<close>,
  lines 101 to 111.\<close>

definition nsev_inverse ::
  "('io, 'po) env \<Rightarrow> addr \<Rightarrow> real list \<Rightarrow> int \<Rightarrow> int \<Rightarrow> int option \<Rightarrow> int option \<Rightarrow> int option
     \<Rightarrow> int option \<Rightarrow> int option \<Rightarrow> ('io rdict, 'io, 'po) py" where
  "nsev_inverse env contspec tvec kappa dis cst csim dst max_iter osf =
     py_bind (py_len contspec) (\<lambda>M.
     let D = int (length tvec) in
     py_bind (py_lift (np_min tvec)) (\<lambda>T1.
     py_bind (py_lift (np_max tvec)) (\<lambda>T2.
     let K = 0 in
     py_bind (nsev_inverse_xi_wrapper env D T1 T2 M dis) (\<lambda>(rv, tmpxi).
     if rv \<noteq> 0 then py_raise (ValueError ''nsev_inverse_xi calculation failed'')
     else
       py_bind (py_lift (get_nsev_inverse_options env dis cst csim dst max_iter osf))
         (\<lambda>options.
       nsev_inverse_wrapper env M contspec (fst tmpxi) (snd tmpxi) K None None
         D T1 T2 kappa options)))))"

subsection \<open>Writing above an address\<close>

text \<open>
  A computation writes above \<open>n\<close> when, started on a heap of at least \<open>n\<close> arrays, it
  leaves the first \<open>n\<close> of them as they are, whatever it returns or raises.
\<close>

definition writes_above :: "nat \<Rightarrow> ('a, 'io, 'po) py \<Rightarrow> bool" where
  "writes_above n m \<longleftrightarrow>
     (\<forall>s r s'. n \<le> length (heap s) \<longrightarrow> m s = (r, s') \<longrightarrow>
        n \<le> length (heap s') \<and> take n (heap s') = take n (heap s))"

subsection \<open>A library stand-in for concrete runs\<close>

text \<open>
  A small library used to run the wrappers on concrete inputs: every function returns the
  code \<open>r\<close>; \<^verbatim>\<open>fnft_nsep\<close> clears the samples it is given and reports one main and one
  auxiliary point, \<^verbatim>\<open>fnft_nsev_slow\<close>
  one bound state when it is given a buffer for it and none otherwise, \<^verbatim>\<open>fnft_nsev_inverse\<close>
  fills \<open>q\<close> with ones and \<^verbatim>\<open>fnft_nsev_inverse_XI\<close> answers \<open>(-1, 1)\<close>. In the
  environment \<^verbatim>\<open>check_return_code\<close> raises on every code but 0, and the option builders
  keep what the wrappers read.
\<close>

definition demo_clib :: "int \<Rightarrow> (int, unit) clib" where
  "demo_clib r =
     \<lparr>fnft_nsep = (\<lambda>a. (r, a\<lparr>nsep_q := map (\<lambda>z. 0) (nsep_q a),
                                nsep_K := 1, nsep_main_spec := [Complex 1 1],
                                nsep_M := 1, nsep_aux_spec := [Complex 2 0]\<rparr>)),
      fnft_nsev_slow = (\<lambda>a. (r,
         a\<lparr>sl_K := (case sl_boundstates a of None \<Rightarrow> 0 | Some b \<Rightarrow> 1),
           sl_boundstates := map_option (\<lambda>b. [Complex 0 1]) (sl_boundstates a),
           sl_discspec := map_option (\<lambda>b. [Complex 3 0, Complex 4 0]) (sl_discspec a),
           sl_cont := map_option (map (\<lambda>z. 1)) (sl_cont a)\<rparr>)),
      fnft_nsev_inverse = (\<lambda>a. (r, a\<lparr>inv_q := map (\<lambda>z. 1) (inv_q a)\<rparr>)),
      fnft_nsev_inverse_XI = (\<lambda>a. (r, a\<lparr>xi_Xi := (-1, 1)\<rparr>))\<rparr>"

definition demo_env :: "int \<Rightarrow> (int, unit) env" where
  "demo_env r =
     \<lparr>uint_bits = 64, int_bits = 32,
      CDLL_get_lib_path = Some (demo_clib r),
      check_return_code = (\<lambda>rv. if rv = 0 then None else Some (ValueError ''FNFT error'')),
      get_nsev_slow_options = (\<lambda>bsf bsl niter dst cst dis ref.
         Inr \<lparr>discspec_type = (case dst of None \<Rightarrow> 0 | Some v \<Rightarrow> v),
              contspec_type = (case cst of None \<Rightarrow> 0 | Some v \<Rightarrow> v),
              other_fields = []\<rparr>),
      get_nsev_inverse_options = (\<lambda>dis cst csim dst max_iter osf. Inr dis)\<rparr>"

text \<open>
  Two libraries that do what the wrappers do not guard against. The first reports more
  points than the buffers hold: 9 main and 5 auxiliary points from \<^verbatim>\<open>fnft_nsep\<close> and 5
  bound states from \<^verbatim>\<open>fnft_nsev_slow\<close>. The second writes to the options struct it is
  handed: \<^verbatim>\<open>fnft_nsev_slow\<close> reports one bound state and sets \<open>discspec_type\<close> to 2. Both
  return the code 0.
\<close>

definition overrun_clib :: "(int, unit) clib" where
  "overrun_clib =
     (demo_clib 0)\<lparr>fnft_nsep := (\<lambda>a. (0, a\<lparr>nsep_K := 9, nsep_M := 5\<rparr>)),
                   fnft_nsev_slow := (\<lambda>a. (0, a\<lparr>sl_K := 5\<rparr>))\<rparr>"

definition rewriting_clib :: "(int, unit) clib" where
  "rewriting_clib =
     (demo_clib 0)\<lparr>fnft_nsev_slow := (\<lambda>a. (0,
        a\<lparr>sl_K := 1, sl_options := (sl_options a)\<lparr>discspec_type := 2\<rparr>\<rparr>))\<rparr>"

definition demo_env_with :: "(int, unit) clib \<Rightarrow> (int, unit) env" where
  "demo_env_with lib = (demo_env 0)\<lparr>CDLL_get_lib_path := Some lib\<rparr>"

text \<open>Options that ask for both spectra in full, for the residues only, and for nothing
  known.\<close>

definition both_spectra :: nsev_slow_options where
  "both_spectra = \<lparr>discspec_type = 2, contspec_type = 1, other_fields = []\<rparr>"

definition residues_only :: nsev_slow_options where
  "residues_only = \<lparr>discspec_type = 1, contspec_type = 0, other_fields = []\<rparr>"

definition unknown_types :: nsev_slow_options where
  "unknown_types = \<lparr>discspec_type = 7, contspec_type = - 1, other_fields = []\<rparr>"

text \<open>A state whose heap holds one array of two samples, at address 0.\<close>

definition demo_state :: "(int, unit) pystate" where
  "demo_state = \<lparr>heap = [[Complex 1 0, Complex 0 2]], calls = []\<rparr>"

section \<open>Reasoning about runs\<close>

text \<open>
  A run is followed step by step: a bind that returned went through each of its steps, and
  each primitive says what it returned and what it did to the heap and to the log.
\<close>

subsection \<open>Running the monad\<close>

lemma py_bind_InrE:
  assumes "py_bind m f s = (Inr y, s')"
  obtains x s1 where "m s = (Inr x, s1)" and "f x s1 = (Inr y, s')"
  using assms by (auto simp: py_bind_def split: prod.splits sum.splits)

lemma py_bind_E:
  assumes "py_bind m f s = (r, s')"
  obtains (raised) e where "m s = (Inl e, s')" and "r = Inl e"
        | (went_on) x s1 where "m s = (Inr x, s1)" and "f x s1 = (r, s')"
  using assms by (auto simp: py_bind_def split: prod.splits sum.splits)

lemma py_return_eq: "py_return x s = (r, s') \<Longrightarrow> r = Inr x \<and> s' = s"
  by (auto simp: py_return_def)

lemma py_raise_eq: "py_raise e s = (r, s') \<Longrightarrow> r = Inl e \<and> s' = s"
  by (auto simp: py_raise_def)

lemma py_lift_eq: "py_lift x s = (r, s') \<Longrightarrow> r = x \<and> s' = s"
  by (auto simp: py_lift_def)

lemma load_clib_Inr:
  "load_clib env s = (Inr lib, s') \<Longrightarrow> CDLL_get_lib_path env = Some lib \<and> s' = s"
  by (auto simp: load_clib_def split: option.splits)

lemma load_clib_Inl: "load_clib env s = (Inl e, s') \<Longrightarrow> s' = s"
  by (auto simp: load_clib_def split: option.splits)

lemma np_zeros_Inr:
  "np_zeros n s = (Inr a, s') \<Longrightarrow>
     0 \<le> n \<and> a = length (heap s) \<and> heap s' = heap s @ [replicate (nat n) 0]
     \<and> calls s' = calls s"
  by (auto simp: np_zeros_def split: if_splits)

lemma np_zeros_Inl: "np_zeros n s = (Inl e, s') \<Longrightarrow> n < 0 \<and> s' = s"
  by (auto simp: np_zeros_def split: if_splits)

lemma np_get_Inr:
  "np_get a s = (Inr v, s') \<Longrightarrow> a < length (heap s) \<and> v = heap s ! a \<and> s' = s"
  by (auto simp: np_get_def split: if_splits)

lemma np_get_Inl: "np_get a s = (Inl e, s') \<Longrightarrow> s' = s"
  by (auto simp: np_get_def split: if_splits)

lemma np_get_arg_Inr:
  "np_get_arg first a s = (Inr v, s') \<Longrightarrow>
     a < first \<and> a < length (heap s) \<and> v = heap s ! a \<and> s' = s"
  by (auto simp: np_get_arg_def split: if_splits)

lemma np_get_arg_Inl: "np_get_arg first a s = (Inl e, s') \<Longrightarrow> s' = s"
  by (auto simp: np_get_arg_def split: if_splits)

lemma np_assign_all_Inr:
  "np_assign_all a v s = (Inr u, s') \<Longrightarrow>
     \<exists>w. np_broadcast (length (heap s ! a)) v = Some w \<and> heap s' = (heap s)[a := w]
       \<and> calls s' = calls s"
  by (auto simp: np_assign_all_def split: option.splits)

lemma np_assign_all_Inl: "np_assign_all a v s = (Inl e, s') \<Longrightarrow> s' = s"
  by (auto simp: np_assign_all_def split: option.splits)

lemma buf_slice_eq:
  "buf_slice p i j s = (r, s') \<Longrightarrow> ptr_slice (heap s) p i j = r \<and> s' = s"
  by (auto simp: buf_slice_def)

lemma ptr_slice_Some [simp]: "ptr_slice h (Some a) i j = Inr (PArr (py_slice (h ! a) i j))"
  by (simp add: ptr_slice_def)


lemma run_check_return_code_Inr:
  "run_check_return_code env rv s = (Inr u, s') \<Longrightarrow> check_return_code env rv = None \<and> s' = s"
  by (auto simp: run_check_return_code_def split: option.splits)


subsection \<open>Buffers and integers\<close>

lemma length_overwrite [simp]: "length (overwrite old new) = length old"
  by (simp add: overwrite_def)

lemma length_left_in [simp]: "length (left_in old new) = length old"
  by (simp add: left_in_def split: option.splits)

lemma length_np_broadcast: "np_broadcast n v = Some w \<Longrightarrow> length w = n"
  by (auto simp: np_broadcast_def split: if_splits)

lemma np_broadcast_same: "length v = n \<Longrightarrow> np_broadcast n v = Some v"
  by (simp add: np_broadcast_def)

lemma ctypes_uint_id: "0 \<le> x \<Longrightarrow> x < 2 ^ bits \<Longrightarrow> ctypes_uint bits x = x"
  by (simp add: ctypes_uint_def)

lemma ctypes_uint_nonneg [simp]: "0 \<le> ctypes_uint bits x"
  by (simp add: ctypes_uint_def)


lemma new_calls_append [simp]: "calls s' = calls s @ cs \<Longrightarrow> new_calls s s' = cs"
  by (simp add: new_calls_def)

lemma new_calls_same [simp]: "calls s' = calls s \<Longrightarrow> new_calls s s' = []"
  by (simp add: new_calls_def)

subsection \<open>The blocks of \<^verbatim>\<open>nsev_slow_wrapper\<close>\<close>

lemma nsev_slow_alloc_disc_Inr:
  "nsev_slow_alloc_disc dst K s = (Inr (d, b), s') \<Longrightarrow>
     calls s' = calls s \<and>
     (if dst = 0 \<or> dst = 1 \<or> dst = 2
      then 0 \<le> K \<and> d = Some (length (heap s)) \<and> b = Some (Suc (length (heap s)))
         \<and> heap s' = heap s @ [replicate (nat (if dst = 2 then 2 * K else K)) 0,
                                replicate (nat K) 0]
      else d = None \<and> b = None \<and> heap s' = heap s)"
  by (auto simp: nsev_slow_alloc_disc_def elim!: py_bind_InrE dest!: np_zeros_Inr py_return_eq split: if_splits)

lemma nsev_slow_alloc_disc_Inl:
  "nsev_slow_alloc_disc dst K s = (Inl e, s') \<Longrightarrow> s' = s"
  by (auto simp: nsev_slow_alloc_disc_def elim!: py_bind_E dest!: np_zeros_Inr np_zeros_Inl py_return_eq split: if_splits)

lemma nsev_slow_alloc_cont_Inr:
  "nsev_slow_alloc_cont cst M s = (Inr c, s') \<Longrightarrow>
     calls s' = calls s \<and>
     (if cst = 0 \<or> cst = 1 \<or> cst = 2
      then 0 \<le> M \<and> c = Some (length (heap s))
         \<and> heap s' = heap s @ [replicate (nat (if cst = 0 then M else if cst = 1 then 2 * M else 3 * M)) 0]
      else c = None \<and> heap s' = heap s)"
  by (auto simp: nsev_slow_alloc_cont_def elim!: py_bind_InrE dest!: np_zeros_Inr py_return_eq split: if_splits)

lemma nsev_slow_alloc_cont_Inl:
  "nsev_slow_alloc_cont cst M s = (Inl e, s') \<Longrightarrow> s' = s"
  by (auto simp: nsev_slow_alloc_cont_def elim!: py_bind_E dest!: np_zeros_Inr np_zeros_Inl py_return_eq split: if_splits)

lemma nsev_slow_output_disc_eq:
  "nsev_slow_output_disc dst p k r s = (x, s') \<Longrightarrow> s' = s"
  by (auto simp: nsev_slow_output_disc_def elim!: py_bind_E dest!: buf_slice_eq py_return_eq split: if_splits)

lemma nsev_slow_output_cont_eq:
  "nsev_slow_output_cont cst p k r s = (x, s') \<Longrightarrow> s' = s"
  by (auto simp: nsev_slow_output_cont_def elim!: py_bind_E dest!: buf_slice_eq py_return_eq split: if_splits)

lemma nsev_slow_output_disc_Inr:
  "nsev_slow_output_disc dst p k r s = (Inr r', s') \<Longrightarrow>
     (if dst = 0 then \<exists>v. ptr_slice (heap s) p 0 k = Inr v \<and> r' = r(''disc_norm'' \<mapsto> v)
      else if dst = 1 then \<exists>v. ptr_slice (heap s) p 0 k = Inr v \<and> r' = r(''disc_res'' \<mapsto> v)
      else if dst = 2 then \<exists>v w. ptr_slice (heap s) p 0 k = Inr v
               \<and> ptr_slice (heap s) p k (2 * k) = Inr w
               \<and> r' = r(''disc_norm'' \<mapsto> v, ''disc_res'' \<mapsto> w)
      else r' = r)"
  by (auto simp: nsev_slow_output_disc_def elim!: py_bind_InrE dest!: py_return_eq buf_slice_eq split: if_splits)

lemma nsev_slow_output_cont_Inr:
  "nsev_slow_output_cont cst p m r s = (Inr r', s') \<Longrightarrow>
     (if cst = 0 then \<exists>v. ptr_slice (heap s) p 0 m = Inr v \<and> r' = r(''cont_ref'' \<mapsto> v)
      else if cst = 1 then \<exists>v w. ptr_slice (heap s) p 0 m = Inr v
               \<and> ptr_slice (heap s) p m (2 * m) = Inr w
               \<and> r' = r(''cont_a'' \<mapsto> v, ''cont_b'' \<mapsto> w)
      else if cst = 2 then \<exists>u v w. ptr_slice (heap s) p 0 m = Inr u
               \<and> ptr_slice (heap s) p m (2 * m) = Inr v
               \<and> ptr_slice (heap s) p (2 * m) (3 * m) = Inr w
               \<and> r' = r(''cont_ref'' \<mapsto> u, ''cont_a'' \<mapsto> v, ''cont_b'' \<mapsto> w)
      else r' = r)"
  by (auto simp: nsev_slow_output_cont_def elim!: py_bind_InrE dest!: py_return_eq buf_slice_eq split: if_splits)

lemma call_fnft_nsev_slow_eq:
  assumes "call_fnft_nsev_slow env lib D q T M c Xi K b d kappa opts s = (r, s')"
  shows "\<exists>args. args = \<lparr>sl_D = D, sl_q = heap s ! q, sl_T = T, sl_M = M,
                 sl_cont = map_option (\<lambda>a. heap s ! a) c, sl_Xi = Xi, sl_K = K,
                 sl_boundstates = map_option (\<lambda>a. heap s ! a) b,
                 sl_discspec = map_option (\<lambda>a. heap s ! a) d,
                 sl_kappa = kappa, sl_options = opts\<rparr> \<and>
     r = Inr (ctypes_int (int_bits env) (fst (fnft_nsev_slow lib args)),
              ctypes_uint (uint_bits env) (sl_K (snd (fnft_nsev_slow lib args))),
              sl_options (snd (fnft_nsev_slow lib args))) \<and>
     calls s' = calls s @ [Call_nsev_slow args] \<and>
     heap s' = poke_opt d (sl_discspec (snd (fnft_nsev_slow lib args)))
                (poke_opt b (sl_boundstates (snd (fnft_nsev_slow lib args)))
                  (poke_opt c (sl_cont (snd (fnft_nsev_slow lib args)))
                    (poke q (sl_q (snd (fnft_nsev_slow lib args))) (heap s))))"
  using assms by (auto simp: call_fnft_nsev_slow_def Let_def)

lemma nsev_slow_alloc_disc_null:
  "nsev_slow_alloc_disc dst K s = (Inr (d, b), s') \<Longrightarrow>
     (d = None \<longleftrightarrow> dst \<notin> {0, 1, 2}) \<and> (b = None \<longleftrightarrow> dst \<notin> {0, 1, 2})"
  by (drule nsev_slow_alloc_disc_Inr) (auto split: if_splits)

lemma nsev_slow_alloc_cont_null:
  "nsev_slow_alloc_cont cst M s = (Inr c, s') \<Longrightarrow> (c = None \<longleftrightarrow> cst \<notin> {0, 1, 2})"
  by (drule nsev_slow_alloc_cont_Inr) (auto split: if_splits)

lemma nsev_slow_output_disc_keys:
  "nsev_slow_output_disc dst p k r s = (Inr r', s') \<Longrightarrow>
     (''disc_norm'' \<in> dom r' \<longleftrightarrow> ''disc_norm'' \<in> dom r \<or> dst \<in> {0, 2})
     \<and> (''disc_res'' \<in> dom r' \<longleftrightarrow> ''disc_res'' \<in> dom r \<or> dst \<in> {1, 2})
     \<and> (\<forall>key. key \<noteq> ''disc_norm'' \<longrightarrow> key \<noteq> ''disc_res'' \<longrightarrow> r' key = r key)"
  by (drule nsev_slow_output_disc_Inr) (auto split: if_splits)

lemma nsev_slow_output_cont_keys:
  "nsev_slow_output_cont cst p m r s = (Inr r', s') \<Longrightarrow>
     (''cont_ref'' \<in> dom r' \<longleftrightarrow> ''cont_ref'' \<in> dom r \<or> cst \<in> {0, 2})
     \<and> (''cont_a'' \<in> dom r' \<longleftrightarrow> ''cont_a'' \<in> dom r \<or> cst \<in> {1, 2})
     \<and> (''cont_b'' \<in> dom r' \<longleftrightarrow> ''cont_b'' \<in> dom r \<or> cst \<in> {1, 2})
     \<and> (\<forall>key. key \<noteq> ''cont_ref'' \<longrightarrow> key \<noteq> ''cont_a'' \<longrightarrow> key \<noteq> ''cont_b'' \<longrightarrow> r' key = r key)"
  by (drule nsev_slow_output_cont_Inr) (auto split: if_splits)

lemma nsev_slow_wrapper_Inr:
  assumes run: "nsev_slow_wrapper env D q T1 T2 Xi1 Xi2 M K kappa options s = (Inr rdict, s')"
  shows "\<exists>lib qbuf s1 db s2 c s3 rk bsv r1 r2.
      CDLL_get_lib_path env = Some lib
    \<and> nsev_slow_alloc_disc (discspec_type options) K s1 = (Inr db, s2)
    \<and> nsev_slow_alloc_cont (contspec_type options) M s2 = (Inr c, s3)
    \<and> call_fnft_nsev_slow env lib (ctypes_uint (uint_bits env) D) (length (heap s)) (T1, T2)
          (ctypes_uint (uint_bits env) M) c (Xi1, Xi2) (ctypes_uint (uint_bits env) K)
          (snd db) (fst db) (ctypes_int (int_bits env) kappa) options s3 = (Inr rk, s')
    \<and> check_return_code env (fst rk) = None
    \<and> ptr_slice (heap s') (snd db) 0 (fst (snd rk)) = Inr bsv
    \<and> nsev_slow_output_disc (discspec_type (snd (snd rk))) (fst db) (fst (snd rk))
          [''return_value'' \<mapsto> PInt (fst rk), ''bound_states_num'' \<mapsto> PInt (fst (snd rk)),
           ''bound_states'' \<mapsto> bsv] s' = (Inr r1, s')
    \<and> nsev_slow_output_cont (contspec_type (snd (snd rk))) c M r1 s' = (Inr r2, s')
    \<and> rdict = r2(''options'' \<mapsto> PRepr (snd (snd rk)))
    \<and> heap s1 = heap s @ [qbuf] \<and> calls s1 = calls s
    \<and> q < length (heap s)
    \<and> np_broadcast (nat (ctypes_uint (uint_bits env) D)) (heap s ! q) = Some qbuf"
  using run
  apply (simp only: nsev_slow_wrapper_def Let_def split_def)
  apply (elim py_bind_InrE)
  apply (frule nsev_slow_output_disc_eq)
  apply (frule nsev_slow_output_cont_eq)
  apply (drule load_clib_Inr np_zeros_Inr np_get_arg_Inr np_assign_all_Inr buf_slice_eq
      py_return_eq run_check_return_code_Inr)+
  apply (elim conjE exE)
  apply hypsubst
  apply (intro exI conjI)
  apply (assumption | simp add: length_np_broadcast nth_append)+
  done






subsection \<open>What \<^verbatim>\<open>nsev_slow_wrapper\<close> hands to the library\<close>

lemma ctypes_uint_not_neg [simp]: "\<not> ctypes_uint bits x < 0"
  by (simp add: ctypes_uint_def not_less)








subsection \<open>The arrays of the caller\<close>

lemma writes_aboveD:
  "writes_above n m \<Longrightarrow> n \<le> length (heap s) \<Longrightarrow> take n (heap (snd (m s))) = take n (heap s)"
  by (cases "m s") (auto simp: writes_above_def)

lemma writes_above_bind:
  assumes "writes_above n m"
    and "\<And>x s s1. n \<le> length (heap s) \<Longrightarrow> m s = (Inr x, s1) \<Longrightarrow> writes_above n (f x)"
  shows "writes_above n (py_bind m f)"
  unfolding writes_above_def
proof (intro allI impI)
  fix s r s'
  assume n: "n \<le> length (heap s)" and run: "py_bind m f s = (r, s')"
  from run show "n \<le> length (heap s') \<and> take n (heap s') = take n (heap s)"
  proof (cases rule: py_bind_E)
    case (raised e)
    with assms(1) n show ?thesis by (auto simp: writes_above_def)
  next
    case (went_on x s1)
    from assms(1) n went_on(1) have 1: "n \<le> length (heap s1)" "take n (heap s1) = take n (heap s)"
      by (auto simp: writes_above_def)
    from assms(2) [OF n went_on(1)] 1(1) went_on(2)
    have "n \<le> length (heap s') \<and> take n (heap s') = take n (heap s1)"
      by (auto simp: writes_above_def)
    with 1 show ?thesis by simp
  qed
qed

lemma writes_above_pure:
  "(\<And>s. snd (m s) = s) \<Longrightarrow> writes_above n m"
  by (auto simp: writes_above_def) (metis snd_conv)+

lemma writes_above_return [intro!]: "writes_above n (py_return x)"
  by (rule writes_above_pure) (simp add: py_return_def)

lemma writes_above_raise [intro!]: "writes_above n (py_raise e)"
  by (rule writes_above_pure) (simp add: py_raise_def)

lemma writes_above_lift [intro!]: "writes_above n (py_lift x)"
  by (rule writes_above_pure) (simp add: py_lift_def)

lemma writes_above_load_clib [intro!]: "writes_above n (load_clib env)"
  by (rule writes_above_pure) (simp add: load_clib_def split: option.splits)

lemma writes_above_np_get [intro!]: "writes_above n (np_get a)"
  by (rule writes_above_pure) (simp add: np_get_def)

lemma writes_above_py_len [intro!]: "writes_above n (py_len a)"
  by (rule writes_above_pure) (simp add: py_len_def)

lemma writes_above_np_get_arg [intro!]: "writes_above n (np_get_arg first a)"
  by (rule writes_above_pure) (simp add: np_get_arg_def)

lemma writes_above_np_get_opt [intro!]: "writes_above n (np_get_opt first p)"
  by (rule writes_above_pure)
    (simp add: np_get_opt_def np_get_arg_def py_raise_def split: option.splits)

lemma writes_above_buf_slice [intro!]: "writes_above n (buf_slice p i j)"
  by (rule writes_above_pure) (simp add: buf_slice_def)

lemma writes_above_check [intro!]: "writes_above n (run_check_return_code env rv)"
  by (rule writes_above_pure) (simp add: run_check_return_code_def split: option.splits)

lemma writes_above_np_zeros [intro!]: "writes_above n (np_zeros k)"
  by (auto simp: writes_above_def np_zeros_def split: if_splits)

lemma writes_above_np_assign_all: "n \<le> a \<Longrightarrow> writes_above n (np_assign_all a v)"
  by (auto simp: writes_above_def np_assign_all_def split: option.splits)

lemma take_poke: "n \<le> a \<Longrightarrow> take n (poke a v h) = take n h"
  by (simp add: poke_def)

lemma length_poke [simp]: "length (poke a v h) = length h"
  by (simp add: poke_def)

lemma take_poke_opt: "(\<And>a. p = Some a \<Longrightarrow> n \<le> a) \<Longrightarrow> take n (poke_opt p v h) = take n h"
  by (simp add: poke_opt_def split: option.splits)

lemma length_poke_opt [simp]: "length (poke_opt p v h) = length h"
  by (simp add: poke_opt_def split: option.splits)

lemma writes_above_call_fnft_nsep:
  "n \<le> q \<Longrightarrow> n \<le> m \<Longrightarrow> n \<le> a \<Longrightarrow>
     writes_above n (call_fnft_nsep env lib D q T K m M a kappa opts)"
  by (auto simp: writes_above_def call_fnft_nsep_def Let_def take_poke)

lemma writes_above_call_fnft_nsev_slow:
  "n \<le> q \<Longrightarrow> (\<And>a. c = Some a \<Longrightarrow> n \<le> a) \<Longrightarrow> (\<And>a. b = Some a \<Longrightarrow> n \<le> a) \<Longrightarrow>
     (\<And>a. d = Some a \<Longrightarrow> n \<le> a) \<Longrightarrow>
     writes_above n (call_fnft_nsev_slow env lib D q T M c Xi K b d kappa opts)"
  by (auto simp: writes_above_def call_fnft_nsev_slow_def Let_def take_poke take_poke_opt)

lemma writes_above_call_fnft_nsev_inverse:
  "n \<le> c \<Longrightarrow> (\<And>a. b = Some a \<Longrightarrow> n \<le> a) \<Longrightarrow> (\<And>a. d = Some a \<Longrightarrow> n \<le> a) \<Longrightarrow> n \<le> q \<Longrightarrow>
     writes_above n (call_fnft_nsev_inverse env lib M c Xi K b d D q T kappa opts)"
  by (auto simp: writes_above_def call_fnft_nsev_inverse_def Let_def take_poke take_poke_opt)

lemma writes_above_call_fnft_nsev_inverse_XI [intro!]:
  "writes_above n (call_fnft_nsev_inverse_XI env lib D T M Xi dis)"
  by (auto simp: writes_above_def call_fnft_nsev_inverse_XI_def Let_def)

lemma writes_above_nsep_wrapper: "writes_above n (nsep_wrapper env D q T1 T2 kappa options)"
  unfolding nsep_wrapper_def Let_def split_def
  apply (intro writes_above_bind writes_above_return writes_above_load_clib writes_above_np_zeros
      writes_above_np_get_arg writes_above_buf_slice writes_above_np_assign_all
      writes_above_call_fnft_nsep)
  apply (auto dest!: np_zeros_Inr np_get_arg_Inr np_assign_all_Inr load_clib_Inr)
  done

lemma writes_above_nsev_slow_alloc_disc [intro!]: "writes_above n (nsev_slow_alloc_disc dst K)"
  unfolding nsev_slow_alloc_disc_def
  by (auto intro!: writes_above_bind)

lemma writes_above_nsev_slow_alloc_cont [intro!]: "writes_above n (nsev_slow_alloc_cont cst M)"
  unfolding nsev_slow_alloc_cont_def
  by (auto intro!: writes_above_bind)

lemma writes_above_nsev_slow_output_disc [intro!]:
  "writes_above n (nsev_slow_output_disc dst p k r)"
  unfolding nsev_slow_output_disc_def
  by (auto intro!: writes_above_bind)

lemma writes_above_nsev_slow_output_cont [intro!]:
  "writes_above n (nsev_slow_output_cont cst p k r)"
  unfolding nsev_slow_output_cont_def
  by (auto intro!: writes_above_bind)

lemma nsev_slow_alloc_disc_fresh:
  "nsev_slow_alloc_disc dst K s = (Inr x, s') \<Longrightarrow> n \<le> length (heap s) \<Longrightarrow>
     (fst x = Some a \<longrightarrow> n \<le> a) \<and> (snd x = Some a \<longrightarrow> n \<le> a)"
  by (cases x) (auto dest!: nsev_slow_alloc_disc_Inr split: if_splits)

lemma nsev_slow_alloc_cont_fresh:
  "nsev_slow_alloc_cont cst M s = (Inr x, s') \<Longrightarrow> n \<le> length (heap s) \<Longrightarrow>
     x = Some a \<Longrightarrow> n \<le> a"
  by (auto dest!: nsev_slow_alloc_cont_Inr split: if_splits)

lemma writes_above_nsev_slow_wrapper:
  "writes_above n (nsev_slow_wrapper env D q T1 T2 Xi1 Xi2 M K kappa options)"
  unfolding nsev_slow_wrapper_def Let_def split_def
  apply (intro writes_above_bind writes_above_return writes_above_load_clib writes_above_np_zeros
      writes_above_np_get_arg writes_above_buf_slice writes_above_np_assign_all
      writes_above_check writes_above_nsev_slow_alloc_disc writes_above_nsev_slow_alloc_cont
      writes_above_nsev_slow_output_disc writes_above_nsev_slow_output_cont
      writes_above_call_fnft_nsev_slow)
  apply (auto dest!: np_zeros_Inr dest: nsev_slow_alloc_disc_fresh nsev_slow_alloc_cont_fresh)
  done

lemma writes_above_nsev_slow:
  "writes_above n (nsev_slow env q tvec Xi1 Xi2 M K kappa bsf bsl niter dst cst dis ref)"
  unfolding nsev_slow_def
  by (intro writes_above_bind writes_above_py_len writes_above_lift writes_above_nsev_slow_wrapper)

lemma nsev_inverse_alloc_disc_fresh:
  "nsev_inverse_alloc_disc first K bs nr s = (Inr x, s') \<Longrightarrow> n \<le> length (heap s) \<Longrightarrow>
     (fst x = Some a \<longrightarrow> n \<le> a) \<and> (snd x = Some a \<longrightarrow> n \<le> a)"
  unfolding nsev_inverse_alloc_disc_def
  apply (simp split: if_splits)
   apply (elim py_bind_InrE)
   apply (auto simp: np_get_opt_def py_raise_def split: option.splits
      dest!: np_zeros_Inr np_assign_all_Inr np_get_arg_Inr py_return_eq)
  done

lemma writes_above_nsev_inverse_alloc_disc [intro!]:
  "writes_above n (nsev_inverse_alloc_disc first K bs nr)"
  unfolding nsev_inverse_alloc_disc_def
  apply (simp, intro conjI impI)
   apply (intro writes_above_bind writes_above_return writes_above_np_zeros
      writes_above_np_get_opt writes_above_np_assign_all)
   apply (auto dest!: np_zeros_Inr np_assign_all_Inr simp: np_get_opt_def py_raise_def
      np_get_arg_def split: option.splits if_splits)
  done

lemma writes_above_nsev_inverse_wrapper:
  "writes_above n (nsev_inverse_wrapper env M contspec Xi1 Xi2 K bs nr D T1 T2 kappa options)"
  unfolding nsev_inverse_wrapper_def Let_def split_def
  apply (intro writes_above_bind writes_above_return writes_above_load_clib writes_above_np_zeros
      writes_above_np_get writes_above_np_get_arg writes_above_np_assign_all writes_above_check
      writes_above_nsev_inverse_alloc_disc writes_above_call_fnft_nsev_inverse)
  apply (auto dest!: np_zeros_Inr np_assign_all_Inr dest: nsev_inverse_alloc_disc_fresh)
  done

lemma writes_above_nsev_inverse_xi_wrapper:
  "writes_above n (nsev_inverse_xi_wrapper env D T1 T2 M dis)"
  unfolding nsev_inverse_xi_wrapper_def Let_def split_def
  by (intro writes_above_bind writes_above_return writes_above_load_clib
      writes_above_call_fnft_nsev_inverse_XI)

lemma writes_above_nsev_inverse:
  "writes_above n (nsev_inverse env contspec tvec kappa dis cst csim dst max_iter osf)"
  unfolding nsev_inverse_def Let_def split_def
  apply (intro writes_above_bind writes_above_py_len writes_above_lift
      writes_above_nsev_inverse_xi_wrapper)
  apply (auto intro!: writes_above_bind writes_above_nsev_inverse_wrapper)
  done

subsection \<open>Concrete runs\<close>

text \<open>Runs on the stand-in library, computed by unfolding the definitions.\<close>

lemmas demo_run_defs = py_bind_def py_return_def py_raise_def py_lift_def np_zeros_def np_get_def
  np_get_arg_def
  py_len_def np_assign_all_def np_broadcast_def buf_slice_def ptr_slice_def load_clib_def
  run_check_return_code_def np_get_opt_def poke_def poke_opt_def left_in_def overwrite_def
  py_slice_def slice_bound_def ctypes_uint_def ctypes_int_def Let_def
  demo_env_def demo_clib_def demo_state_def demo_env_with_def overrun_clib_def
  rewriting_clib_def both_spectra_def residues_only_def unknown_types_def

lemmas nsev_slow_wrapper_defs = nsev_slow_wrapper_def nsev_slow_alloc_disc_def
  nsev_slow_alloc_cont_def nsev_slow_output_disc_def nsev_slow_output_cont_def
  call_fnft_nsev_slow_def

lemma nsev_slow_demo_both:
  "\<exists>rd st. nsev_slow_wrapper (demo_env 0) 2 0 0 1 (- 2) 2 4 3 1
       \<lparr>discspec_type = 2, contspec_type = 1, other_fields = []\<rparr> demo_state = (Inr rd, st)
     \<and> rd ''bound_states_num'' = Some (PInt 1)"
  by (simp add: nsev_slow_wrapper_defs demo_run_defs)

lemma nsev_slow_demo_skip:
  "\<exists>rd st. nsev_slow_wrapper (demo_env 0) 2 0 0 1 (- 2) 2 4 3 1
       \<lparr>discspec_type = 3, contspec_type = 3, other_fields = []\<rparr> demo_state = (Inr rd, st)"
  by (simp add: nsev_slow_wrapper_defs demo_run_defs)

section \<open>Properties\<close>

subsection \<open>The time vector\<close>

text \<open>
  C9. Two calls of \<^verbatim>\<open>nsev_slow\<close> that differ only in the time vector are the same
  computation (same result, same final state, from every state) when the two vectors have
  the same minimum and the same maximum: the length, the order and the spacing of \<open>tvec\<close>
  play no role, the number of samples being \<^verbatim>\<open>len(q)\<close>. Two calls of \<^verbatim>\<open>nsev_inverse\<close>
  are the same computation when the vectors agree in length, minimum and maximum.
\<close>

theorem nsev_tvec_only_through_min_max:
  "(np_min tvec = np_min tvec' \<and> np_max tvec = np_max tvec' \<longrightarrow>
      nsev_slow env q tvec Xi1 Xi2 M K kappa bsf bsl niter dst cst dis ref
      = nsev_slow env q tvec' Xi1 Xi2 M K kappa bsf bsl niter dst cst dis ref)
   \<and> (length tvec = length tvec' \<and> np_min tvec = np_min tvec' \<and> np_max tvec = np_max tvec' \<longrightarrow>
      nsev_inverse env contspec tvec kappa idis icst csim idst max_iter osf
      = nsev_inverse env contspec tvec' kappa idis icst csim idst max_iter osf)"
  by (simp add: nsev_slow_def nsev_inverse_def)

theorem nsev_tvec_only_through_min_max_witness:
  "np_min [0, 1, 2] = np_min [2, 0, 1, 1 / 2] \<and> np_max [0, 1, 2] = np_max [2, 0, 1, 1 / 2]
   \<and> nsev_slow (demo_env 0) 0 [0, 1, 2] (- 2) 2 4 3 1 None None None None None None None
     = nsev_slow (demo_env 0) 0 [2, 0, 1, 1 / 2] (- 2) 2 4 3 1 None None None None None None None
   \<and> length [0, 1, 2 :: real] = length [2, 1 / 2, 0 :: real]
   \<and> np_min [0, 1, 2] = np_min [2, 1 / 2, 0] \<and> np_max [0, 1, 2] = np_max [2, 1 / 2, 0]
   \<and> nsev_inverse (demo_env 0) 0 [0, 1, 2] 1 4 None None None None None
     = nsev_inverse (demo_env 0) 0 [2, 1 / 2, 0] 1 4 None None None None None"
proof -
  have m1: "np_min [0, 1, 2] = np_min [2, 0, 1, 1 / 2]"
    and x1: "np_max [0, 1, 2] = np_max [2, 0, 1, 1 / 2]"
    and m2: "np_min [0, 1, 2] = np_min [2, 1 / 2, 0]"
    and x2: "np_max [0, 1, 2] = np_max [2, 1 / 2, 0]"
    by (simp_all add: np_min_def np_max_def)
  have a: "nsev_slow (demo_env 0) 0 [0, 1, 2] (- 2) 2 4 3 1 None None None None None None None
     = nsev_slow (demo_env 0) 0 [2, 0, 1, 1 / 2] (- 2) 2 4 3 1 None None None None None None None"
    by (rule nsev_tvec_only_through_min_max [THEN conjunct1, THEN mp]) (simp add: m1 x1)
  have b: "nsev_inverse (demo_env 0) 0 [0, 1, 2] 1 4 None None None None None
     = nsev_inverse (demo_env 0) 0 [2, 1 / 2, 0] 1 4 None None None None None"
    by (rule nsev_tvec_only_through_min_max [THEN conjunct2, THEN mp]) (simp add: m2 x2)
  show ?thesis using m1 x1 m2 x2 a b by simp
qed

subsection \<open>The keys of the result of \<^verbatim>\<open>nsev_slow_wrapper\<close>\<close>

text \<open>
  C4, as stated, fails for a library that writes to the options struct. The caller asks
  for the residues only (\<open>discspec_type = 1\<close>); the library sets \<open>discspec_type\<close> to 2 in
  the struct it was handed by reference; the wrapper reads the struct again at line 261 and
  returns a dictionary that holds \<open>disc_norm\<close>, which the options of the caller did not
  select.
\<close>

theorem nsev_slow_wrapper_keys_follow_rewritten_options:
  "\<not> isl (fst (nsev_slow_wrapper (demo_env_with rewriting_clib) 2 0 0 1 (- 2) 2 4 3 1
              residues_only demo_state))
   \<and> discspec_type residues_only = 1
   \<and> ''disc_norm'' \<in> dom (projr (fst (nsev_slow_wrapper (demo_env_with rewriting_clib)
              2 0 0 1 (- 2) 2 4 3 1 residues_only demo_state)))"
  by (simp add: nsev_slow_wrapper_defs demo_run_defs)

text \<open>
  C4, amended. When \<^verbatim>\<open>nsev_slow_wrapper\<close> returns a dictionary, the library was called
  once, with the options of the caller, and it was handed a null pointer for the bound
  states and for the discrete spectrum exactly when \<open>discspec_type\<close> as given is none of 0,
  1, 2 (so for 3, "skip"), and a null pointer for the continuous spectrum exactly when
  \<open>contspec_type\<close> as given is none of 0, 1, 2. The keys follow the options as the library
  left them: \<open>disc_norm\<close> is in the dictionary exactly when \<open>discspec_type\<close> is then 0 or
  2, \<open>disc_res\<close> exactly when it is 1 or 2, \<open>cont_ref\<close> exactly when \<open>contspec_type\<close> is
  then 0 or 2, \<open>cont_a\<close> and \<open>cont_b\<close> exactly when it is 1 or 2, and \<open>options\<close> is the
  struct as the library left it. So for a library that leaves the two fields as they were
  given, the keys are present exactly when the caller's options select them, and a skipped
  spectrum has no key and no buffer.
\<close>

theorem nsev_slow_wrapper_result_keys:
  assumes run: "nsev_slow_wrapper env D q T1 T2 Xi1 Xi2 M K kappa options s = (Inr rdict, s')"
  shows "\<exists>lib a.
      CDLL_get_lib_path env = Some lib
    \<and> new_calls s s' = [Call_nsev_slow a]
    \<and> sl_options a = options
    \<and> (sl_discspec a = None \<longleftrightarrow> discspec_type options \<notin> {0, 1, 2})
    \<and> (sl_boundstates a = None \<longleftrightarrow> discspec_type options \<notin> {0, 1, 2})
    \<and> (sl_cont a = None \<longleftrightarrow> contspec_type options \<notin> {0, 1, 2})
    \<and> rdict ''options'' = Some (PRepr (sl_options (snd (fnft_nsev_slow lib a))))
    \<and> (''disc_norm'' \<in> dom rdict
          \<longleftrightarrow> discspec_type (sl_options (snd (fnft_nsev_slow lib a))) \<in> {0, 2})
    \<and> (''disc_res'' \<in> dom rdict
          \<longleftrightarrow> discspec_type (sl_options (snd (fnft_nsev_slow lib a))) \<in> {1, 2})
    \<and> (''cont_ref'' \<in> dom rdict
          \<longleftrightarrow> contspec_type (sl_options (snd (fnft_nsev_slow lib a))) \<in> {0, 2})
    \<and> (''cont_a'' \<in> dom rdict
          \<longleftrightarrow> contspec_type (sl_options (snd (fnft_nsev_slow lib a))) \<in> {1, 2})
    \<and> (''cont_b'' \<in> dom rdict
          \<longleftrightarrow> contspec_type (sl_options (snd (fnft_nsev_slow lib a))) \<in> {1, 2})
    \<and> (discspec_type (sl_options (snd (fnft_nsev_slow lib a))) = discspec_type options
         \<and> contspec_type (sl_options (snd (fnft_nsev_slow lib a))) = contspec_type options
        \<longrightarrow> (''disc_norm'' \<in> dom rdict \<longleftrightarrow> discspec_type options \<in> {0, 2})
          \<and> (''disc_res'' \<in> dom rdict \<longleftrightarrow> discspec_type options \<in> {1, 2})
          \<and> (''cont_ref'' \<in> dom rdict \<longleftrightarrow> contspec_type options \<in> {0, 2})
          \<and> (''cont_a'' \<in> dom rdict \<longleftrightarrow> contspec_type options \<in> {1, 2})
          \<and> (''cont_b'' \<in> dom rdict \<longleftrightarrow> contspec_type options \<in> {1, 2}))"
proof -
  from nsev_slow_wrapper_Inr [OF run]
  obtain lib qbuf s1 d b s2 c s3 rv K_new after bsv r1 r2 where
    lib: "CDLL_get_lib_path env = Some lib"
    and s1: "calls s1 = calls s"
    and ad: "nsev_slow_alloc_disc (discspec_type options) K s1 = (Inr (d, b), s2)"
    and ac: "nsev_slow_alloc_cont (contspec_type options) M s2 = (Inr c, s3)"
    and call: "call_fnft_nsev_slow env lib (ctypes_uint (uint_bits env) D) (length (heap s))
          (T1, T2) (ctypes_uint (uint_bits env) M) c (Xi1, Xi2) (ctypes_uint (uint_bits env) K)
          b d (ctypes_int (int_bits env) kappa) options s3 = (Inr (rv, K_new, after), s')"
    and od: "nsev_slow_output_disc (discspec_type after) d K_new
          [''return_value'' \<mapsto> PInt rv, ''bound_states_num'' \<mapsto> PInt K_new,
           ''bound_states'' \<mapsto> bsv] s' = (Inr r1, s')"
    and oc: "nsev_slow_output_cont (contspec_type after) c M r1 s' = (Inr r2, s')"
    and rd: "rdict = r2(''options'' \<mapsto> PRepr after)"
    by (metis prod.collapse)
  note dn = nsev_slow_alloc_disc_null [OF ad]
  note cn = nsev_slow_alloc_cont_null [OF ac]
  note dk = nsev_slow_output_disc_keys [OF od]
  note ck = nsev_slow_output_cont_keys [OF oc]
  have c2: "calls s2 = calls s1" using nsev_slow_alloc_disc_Inr [OF ad] by simp
  have c3: "calls s3 = calls s2" using nsev_slow_alloc_cont_Inr [OF ac] by simp
  from call_fnft_nsev_slow_eq [OF call] obtain a where
    a: "calls s' = calls s3 @ [Call_nsev_slow a]"
    and a0: "sl_options a = options"
    and a1: "sl_discspec a = map_option (\<lambda>x. heap s3 ! x) d"
    and a2: "sl_boundstates a = map_option (\<lambda>x. heap s3 ! x) b"
    and a3: "sl_cont a = map_option (\<lambda>x. heap s3 ! x) c"
    and af: "after = sl_options (snd (fnft_nsev_slow lib a))"
    by auto
  have nc: "new_calls s s' = [Call_nsev_slow a]"
    using a c3 c2 s1 by simp
  have o: "rdict ''options'' = Some (PRepr after)" by (simp add: rd)
  have k1: "''disc_norm'' \<in> dom rdict \<longleftrightarrow> discspec_type after \<in> {0, 2}"
    using dk ck by (simp add: rd dom_def)
  have k2: "''disc_res'' \<in> dom rdict \<longleftrightarrow> discspec_type after \<in> {1, 2}"
    using dk ck by (simp add: rd dom_def)
  have k3: "''cont_ref'' \<in> dom rdict \<longleftrightarrow> contspec_type after \<in> {0, 2}"
    using dk ck by (simp add: rd dom_def)
  have k4: "''cont_a'' \<in> dom rdict \<longleftrightarrow> contspec_type after \<in> {1, 2}"
    using dk ck by (simp add: rd dom_def)
  have k5: "''cont_b'' \<in> dom rdict \<longleftrightarrow> contspec_type after \<in> {1, 2}"
    using dk ck by (simp add: rd dom_def)
  have n1: "sl_discspec a = None \<longleftrightarrow> discspec_type options \<notin> {0, 1, 2}"
    using dn by (simp add: a1)
  have n2: "sl_boundstates a = None \<longleftrightarrow> discspec_type options \<notin> {0, 1, 2}"
    using dn by (simp add: a2)
  have n3: "sl_cont a = None \<longleftrightarrow> contspec_type options \<notin> {0, 1, 2}"
    using cn by (simp add: a3)
  have same: "discspec_type after = discspec_type options
         \<and> contspec_type after = contspec_type options
        \<longrightarrow> (''disc_norm'' \<in> dom rdict \<longleftrightarrow> discspec_type options \<in> {0, 2})
          \<and> (''disc_res'' \<in> dom rdict \<longleftrightarrow> discspec_type options \<in> {1, 2})
          \<and> (''cont_ref'' \<in> dom rdict \<longleftrightarrow> contspec_type options \<in> {0, 2})
          \<and> (''cont_a'' \<in> dom rdict \<longleftrightarrow> contspec_type options \<in> {1, 2})
          \<and> (''cont_b'' \<in> dom rdict \<longleftrightarrow> contspec_type options \<in> {1, 2})"
    by (simp only: k1 k2 k3 k4 k5) simp
  show ?thesis
    apply (rule exI [of _ lib], rule exI [of _ a])
    apply (fold af)
    apply (intro conjI)
    apply (rule lib nc a0 n1 n2 n3 o k1 k2 k3 k4 k5 same)+
    done
qed

theorem nsev_slow_wrapper_result_keys_witness:
  "nsev_slow_wrapper (demo_env 0) 2 0 0 1 (- 2) 2 4 3 1 both_spectra demo_state
     = (Inr (projr (fst (nsev_slow_wrapper (demo_env 0) 2 0 0 1 (- 2) 2 4 3 1 both_spectra
                      demo_state))),
        snd (nsev_slow_wrapper (demo_env 0) 2 0 0 1 (- 2) 2 4 3 1 both_spectra demo_state))
   \<and> length (new_calls demo_state
        (snd (nsev_slow_wrapper (demo_env 0) 2 0 0 1 (- 2) 2 4 3 1 both_spectra demo_state))) = 1
   \<and> dom (projr (fst (nsev_slow_wrapper (demo_env 0) 2 0 0 1 (- 2) 2 4 3 1 both_spectra
                      demo_state)))
       \<inter> {''disc_norm'', ''disc_res'', ''cont_ref'', ''cont_a'', ''cont_b''}
     = {''disc_norm'', ''disc_res'', ''cont_a'', ''cont_b''}"
proof -
  define R where "R = nsev_slow_wrapper (demo_env 0) 2 0 0 1 (- 2) 2 4 3 1 both_spectra demo_state"
  have "\<not> isl (fst R)"
    unfolding R_def by (simp add: nsev_slow_wrapper_defs demo_run_defs)
  then obtain rd st where run: "R = (Inr rd, st)"
    by (cases R, cases "fst R") auto
  from nsev_slow_wrapper_result_keys [OF run [unfolded R_def]] obtain lib a where
    lib: "CDLL_get_lib_path (demo_env 0) = Some lib"
    and nc: "new_calls demo_state st = [Call_nsev_slow a]"
    and a0: "sl_options a = both_spectra"
    and k: "''disc_norm'' \<in> dom rd
          \<longleftrightarrow> discspec_type (sl_options (snd (fnft_nsev_slow lib a))) \<in> {0, 2}"
      "''disc_res'' \<in> dom rd
          \<longleftrightarrow> discspec_type (sl_options (snd (fnft_nsev_slow lib a))) \<in> {1, 2}"
      "''cont_ref'' \<in> dom rd
          \<longleftrightarrow> contspec_type (sl_options (snd (fnft_nsev_slow lib a))) \<in> {0, 2}"
      "''cont_a'' \<in> dom rd
          \<longleftrightarrow> contspec_type (sl_options (snd (fnft_nsev_slow lib a))) \<in> {1, 2}"
      "''cont_b'' \<in> dom rd
          \<longleftrightarrow> contspec_type (sl_options (snd (fnft_nsev_slow lib a))) \<in> {1, 2}"
    by (elim exE conjE) (rule that, assumption+)
  from lib have l: "lib = demo_clib 0" by (simp add: demo_env_def)
  have after: "sl_options (snd (fnft_nsev_slow lib a)) = both_spectra"
    by (simp add: l demo_clib_def a0)
  have keys: "dom rd \<inter> {''disc_norm'', ''disc_res'', ''cont_ref'', ''cont_a'', ''cont_b''}
     = {''disc_norm'', ''disc_res'', ''cont_a'', ''cont_b''}"
    using k unfolding after by (auto simp: both_spectra_def)
  have "R = (Inr (projr (fst R)), snd R)
   \<and> length (new_calls demo_state (snd R)) = 1
   \<and> dom (projr (fst R)) \<inter> {''disc_norm'', ''disc_res'', ''cont_ref'', ''cont_a'', ''cont_b''}
     = {''disc_norm'', ''disc_res'', ''cont_a'', ''cont_b''}"
    using nc keys by (simp add: run)
  then show ?thesis unfolding R_def .
qed

subsection \<open>Bound states and their coefficients\<close>




end
